theory Spec2Isabelle
  imports Complex_Main "HOL-Library.Word" "HOL-Library.Char_ord" "HOL-Library.List_Lexorder"
begin

unbundle bit_operations_syntax

section \<open>Go values: errors and strings\<close>

text \<open>
  A Go \<^verbatim>\<open>error\<close> is either built in place (\<^verbatim>\<open>errors.New\<close>, \<^verbatim>\<open>fmt.Errorf\<close> without
  \<^verbatim>\<open>%w\<close>) or wraps another error with a context string (\<^verbatim>\<open>fmt.Errorf("...: %w", err)\<close>).
  The layer that built an error is kept beside its message, so that a statement can say
  where a returned error came from.
\<close>

datatype origin = FromModel | FromCache | FromCodec | FromStore | FromService | FromRand

datatype error = Err origin string | Wrapped string error

fun origin_of :: "error \<Rightarrow> origin" where
  "origin_of (Err og msg) = og"
| "origin_of (Wrapped ctx e) = origin_of e"

text \<open>
  A Go string is a sequence of bytes; \<^verbatim>\<open>len\<close> counts bytes. It is modelled as a
  \<^typ>\<open>string\<close>, whose characters are bytes.
\<close>

definition byte :: "char \<Rightarrow> nat" where
  "byte c = of_char c"

definition is_upper :: "char \<Rightarrow> bool" where
  "is_upper c = (65 \<le> byte c \<and> byte c \<le> 90)"

definition is_lower :: "char \<Rightarrow> bool" where
  "is_lower c = (97 \<le> byte c \<and> byte c \<le> 122)"

definition is_digit :: "char \<Rightarrow> bool" where
  "is_digit c = (48 \<le> byte c \<and> byte c \<le> 57)"

definition is_alpha :: "char \<Rightarrow> bool" where
  "is_alpha c = (is_upper c \<or> is_lower c)"

definition is_alnum :: "char \<Rightarrow> bool" where
  "is_alnum c = (is_alpha c \<or> is_digit c)"

text \<open>
  \<^verbatim>\<open>strings.ToLower\<close>. Every call in the embedded code passes a string that has just
  been matched against an ASCII-only pattern, where Go maps \<^verbatim>\<open>A-Z\<close> to \<^verbatim>\<open>a-z\<close> and
  leaves the other bytes alone; that is what is modelled (Go's mapping of letters beyond
  ASCII is not).
\<close>

definition lower_char :: "char \<Rightarrow> char" where
  "lower_char c = (if is_upper c then char_of (byte c + 32) else c)"

definition ToLower :: "string \<Rightarrow> string" where
  "ToLower s = map lower_char s"

text \<open>
  \<^verbatim>\<open>strings.TrimSpace\<close> removes the leading and the trailing white space, as
  \<^verbatim>\<open>unicode.IsSpace\<close> defines it: the six ASCII characters, U+0085, U+00A0, U+1680,
  U+2000 to U+200A, U+2028, U+2029, U+202F, U+205F and U+3000. \<open>utf8_spaces\<close> lists
  their UTF-8 encodings.
\<close>

definition utf8_spaces :: "string list" where
  "utf8_spaces = map (map char_of)
     ([[9], [10], [11], [12], [13], [32], [0xC2, 0x85], [0xC2, 0xA0], [0xE1, 0x9A, 0x80]]
      @ map (\<lambda>b. [0xE2, 0x80, b]) ([0x80 ..< 0x8B] @ [0xA8, 0xA9, 0xAF])
      @ [[0xE2, 0x81, 0x9F], [0xE3, 0x80, 0x80 :: nat]])"

definition leading_rune :: "string list \<Rightarrow> string \<Rightarrow> string option" where
  "leading_rune rs s = find (\<lambda>r. r \<noteq> [] \<and> take (length r) s = r) rs"

function strip_runes :: "string list \<Rightarrow> string \<Rightarrow> string" where
  "strip_runes rs s =
     (case leading_rune rs s of
        None \<Rightarrow> s
      | Some r \<Rightarrow> strip_runes rs (drop (length r) s))"
  by pat_completeness auto
termination
proof (relation "measure (\<lambda>(rs, s). length s)")
  show "wf (measure (\<lambda>(rs, s). length s))" by simp
next
  fix rs :: "string list" and s r :: string
  assume "leading_rune rs s = Some r"
  then have "r \<noteq> []" and "take (length r) s = r"
    by (auto simp: leading_rune_def find_Some_iff)
  then have "s \<noteq> []" by auto
  with \<open>r \<noteq> []\<close> show "((rs, drop (length r) s), (rs, s)) \<in> measure (\<lambda>(rs, s). length s)"
    by (cases r; cases s) auto
qed

declare strip_runes.simps [simp del]

definition TrimSpace :: "string \<Rightarrow> string" where
  "TrimSpace s = rev (strip_runes (map rev utf8_spaces) (rev (strip_runes utf8_spaces s)))"

section \<open>Regular expressions of the validators\<close>

text \<open>
  The patterns of the source are anchored at both ends (\<^verbatim>\<open>^...$\<close>, no flags), so
  \<^verbatim>\<open>regexp.MatchString\<close> holds when the whole string matches. They use ASCII classes
  only, which no byte of a multi-byte rune belongs to, so matching bytes is matching runes.
  \<open>full_match\<close> decides the match with Brzozowski derivatives.
\<close>

datatype rexp =
    Never
  | Eps
  | Sym "char \<Rightarrow> bool"
  | Alt rexp rexp
  | Seq rexp rexp
  | Star rexp

fun nullable :: "rexp \<Rightarrow> bool" where
  "nullable Never = False"
| "nullable Eps = True"
| "nullable (Sym P) = False"
| "nullable (Alt r s) = (nullable r \<or> nullable s)"
| "nullable (Seq r s) = (nullable r \<and> nullable s)"
| "nullable (Star r) = True"

fun deriv :: "char \<Rightarrow> rexp \<Rightarrow> rexp" where
  "deriv c Never = Never"
| "deriv c Eps = Never"
| "deriv c (Sym P) = (if P c then Eps else Never)"
| "deriv c (Alt r s) = Alt (deriv c r) (deriv c s)"
| "deriv c (Seq r s) =
     (if nullable r then Alt (Seq (deriv c r) s) (deriv c s) else Seq (deriv c r) s)"
| "deriv c (Star r) = Seq (deriv c r) (Star r)"

fun full_match :: "rexp \<Rightarrow> string \<Rightarrow> bool" where
  "full_match r [] = nullable r"
| "full_match r (c # cs) = full_match (deriv c r) cs"

definition Plus :: "rexp \<Rightarrow> rexp" where
  "Plus r = Seq r (Star r)"

definition Opt :: "rexp \<Rightarrow> rexp" where
  "Opt r = Alt r Eps"

definition Chr :: "char \<Rightarrow> rexp" where
  "Chr c = Sym (\<lambda>d. d = c)"

fun Lit :: "string \<Rightarrow> rexp" where
  "Lit [] = Eps"
| "Lit (c # cs) = Seq (Chr c) (Lit cs)"

text \<open>\<^verbatim>\<open>^[a-zA-Z0-9_]+$\<close>\<close>

definition username_re :: rexp where
  "username_re = Plus (Sym (\<lambda>c. is_alnum c \<or> c = CHR ''_''))"

text \<open>\<^verbatim>\<open>^[a-zA-Z0-9._%+-]+@[a-zA-Z0-9.-]+\.[a-zA-Z]{2,}$\<close>\<close>

definition email_re :: rexp where
  "email_re =
     Seq (Plus (Sym (\<lambda>c. is_alnum c \<or> c \<in> set ''._%+-'')))
    (Seq (Chr CHR ''@'')
    (Seq (Plus (Sym (\<lambda>c. is_alnum c \<or> c \<in> set ''.-'')))
    (Seq (Chr CHR ''.'')
    (Seq (Sym is_alpha) (Seq (Sym is_alpha) (Star (Sym is_alpha)))))))"

text \<open>\<^verbatim>\<open>^https?://[a-zA-Z0-9.-]+\.[a-zA-Z]{2,}(/.*)?$\<close>; the dot matches all but a newline.\<close>

definition url_re :: rexp where
  "url_re =
     Seq (Lit ''http'') (Seq (Opt (Chr CHR ''s'')) (Seq (Lit ''://'')
    (Seq (Plus (Sym (\<lambda>c. is_alnum c \<or> c \<in> set ''.-'')))
    (Seq (Chr CHR ''.'')
    (Seq (Sym is_alpha) (Seq (Sym is_alpha) (Seq (Star (Sym is_alpha))
    (Opt (Seq (Chr CHR ''/'') (Star (Sym (\<lambda>c. byte c \<noteq> 10))))))))))))"

section \<open>Validation (internal/models/user.go, internal/shared/utils/password.go)\<close>

text \<open>A validator returns Go's \<^verbatim>\<open>error\<close>: \<open>None\<close> is \<^verbatim>\<open>nil\<close>.\<close>

definition ValidateUsername :: "string \<Rightarrow> error option" where
  "ValidateUsername username0 =
     (let username = TrimSpace username0 in
      if length username < 3 then
        Some (Err FromModel ''username must be at least 3 characters long'')
      else if length username > 30 then
        Some (Err FromModel ''username cannot exceed 30 characters'')
      else if \<not> full_match username_re username then
        Some (Err FromModel ''username can only contain letters, numbers, and underscores'')
      else None)"

definition ValidateEmail :: "string \<Rightarrow> error option" where
  "ValidateEmail email0 =
     (let email = TrimSpace email0 in
      if email = [] then Some (Err FromModel ''email is required'')
      else if \<not> full_match email_re email then Some (Err FromModel ''invalid email format'')
      else if length email > 255 then
        Some (Err FromModel ''email cannot exceed 255 characters'')
      else None)"

definition password_classes_error :: error where
  "password_classes_error = Err FromModel
     ''password must contain at least one uppercase letter, one lowercase letter, and one digit''"

text \<open>
  \<^verbatim>\<open>models.ValidatePassword\<close>. The three patterns \<^verbatim>\<open>[A-Z]\<close>, \<^verbatim>\<open>[a-z]\<close> and \<^verbatim>\<open>\d\<close> are
  not anchored: each holds when some byte of the password is in the class.
\<close>

definition ValidatePassword :: "string \<Rightarrow> error option" where
  "ValidatePassword password =
     (if length password < 8 then
        Some (Err FromModel ''password must be at least 8 characters long'')
      else if length password > 128 then
        Some (Err FromModel ''password cannot exceed 128 characters'')
      else
        (let hasUpper = list_ex is_upper password;
             hasLower = list_ex is_lower password;
             hasDigit = list_ex is_digit password
         in if \<not> hasUpper \<or> \<not> hasLower \<or> \<not> hasDigit then Some password_classes_error
            else None))"

definition isValidURL :: "string \<Rightarrow> bool" where
  "isValidURL url = full_match url_re url"

text \<open>The credential hashing helper, \<^verbatim>\<open>utils.PasswordService\<close>, and its own validator.\<close>

record PasswordService =
  cost :: int

definition BcryptCost :: int where
  "BcryptCost = 12"

definition NewPasswordService :: PasswordService where
  "NewPasswordService = \<lparr>cost = BcryptCost\<rparr>"

definition PasswordService_ValidatePassword :: "PasswordService \<Rightarrow> string \<Rightarrow> error option" where
  "PasswordService_ValidatePassword ps password =
     (if length password < 8 then
        Some (Err FromModel ''password must be at least 8 characters long'')
      else if length password > 128 then
        Some (Err FromModel ''password cannot exceed 128 characters'')
      else
        (let hasUpper = list_ex is_upper password;
             hasLower = list_ex is_lower password;
             hasDigit = list_ex is_digit password
         in if \<not> hasUpper \<or> \<not> hasLower \<or> \<not> hasDigit then Some password_classes_error
            else None))"

text \<open>
  The four character classes the specification counts. The source has no pattern for a
  symbol; a symbol is taken to be a byte that is neither a letter nor a digit.
\<close>

definition class_count :: "string \<Rightarrow> nat" where
  "class_count p =
     (if list_ex is_upper p then 1 else 0) + (if list_ex is_lower p then 1 else 0)
     + (if list_ex is_digit p then 1 else 0) + (if list_ex (\<lambda>c. \<not> is_alnum c) p then 1 else 0)"

section \<open>Password hashing (crypto/sha256, encoding/hex)\<close>


























section \<open>The entity (internal/models/base.go, internal/models/user.go)\<close>

text \<open>
  A \<^verbatim>\<open>time.Time\<close> is an instant, a natural number. A \<^verbatim>\<open>primitive.ObjectID\<close> is kept in
  the form \<^verbatim>\<open>Hex()\<close> prints, 24 lower-case hexadecimal digits. The fields of the
  embedded \<^verbatim>\<open>BaseModel\<close> come first.
\<close>

record user =
  ID :: string
  CreatedAt :: nat
  UpdatedAt :: nat
  DeletedAt :: "nat option"
  Username :: string
  Email :: string
  FirstName :: string
  LastName :: string
  Password :: string
  Salt :: string
  Avatar :: string
  Bio :: string
  Location :: string
  Website :: string
  DateOfBirth :: "nat option"
  IsActive :: bool
  IsVerified :: bool
  Roles :: "string list"
  LastLoginAt :: "nat option"
  EmailVerifiedAt :: "nat option"
  LoginCount :: int
  FailedLogins :: int
  LastFailedAt :: "nat option"
  Preferences :: "(string \<times> string) list"

definition RoleUser :: string where
  "RoleUser = ''user''"

text \<open>The zero value \<^verbatim>\<open>models.User{}\<close>.\<close>

definition zero_user :: user where
  "zero_user = \<lparr>ID = replicate 24 CHR ''0'', CreatedAt = 0, UpdatedAt = 0, DeletedAt = None,
     Username = [], Email = [], FirstName = [], LastName = [], Password = [], Salt = [],
     Avatar = [], Bio = [], Location = [], Website = [], DateOfBirth = None,
     IsActive = False, IsVerified = False, Roles = [], LastLoginAt = None,
     EmailVerifiedAt = None, LoginCount = 0, FailedLogins = 0, LastFailedAt = None,
     Preferences = []\<rparr>"

definition GetIDString :: "user \<Rightarrow> string" where
  "GetIDString u = ID u"

definition is_hex :: "char \<Rightarrow> bool" where
  "is_hex c = (is_digit c \<or> (65 \<le> byte c \<and> byte c \<le> 70) \<or> (97 \<le> byte c \<and> byte c \<le> 102))"

text \<open>
  \<^verbatim>\<open>primitive.ObjectIDFromHex\<close>: 24 hexadecimal digits of either case, decoded to the
  twelve bytes; in the printed form the letters are lower-case.
\<close>

definition ObjectIDFromHex :: "string \<Rightarrow> error + string" where
  "ObjectIDFromHex s =
     (if length s = 24 \<and> list_all is_hex s then Inr (ToLower s)
      else Inl (Err FromStore ''the provided hex string is not a valid ObjectID''))"



section \<open>Requests and responses (internal/models/dto.go)\<close>




record UserResponse =
  ID_r :: string
  Username_r :: string
  Email_r :: string
  FirstName_r :: string
  LastName_r :: string
  FullName_r :: string
  Avatar_r :: string
  Bio_r :: string
  Location_r :: string
  Website_r :: string
  DateOfBirth_r :: "nat option"
  IsActive_r :: bool
  IsVerified_r :: bool
  Roles_r :: "string list"
  LastLoginAt_r :: "nat option"
  EmailVerifiedAt_r :: "nat option"
  LoginCount_r :: int
  Preferences_r :: "(string \<times> string) list"
  CreatedAt_r :: nat
  UpdatedAt_r :: nat

record UserListResponse =
  Users :: "UserResponse list"
  Total :: int
  Page_l :: "64 word"
  Limit_l :: "64 word"



text \<open>\<^verbatim>\<open>ToMap\<close>: the fields of a partial update, as the \<^verbatim>\<open>$set\<close> document the store gets.\<close>

datatype bson = BString string | BBool bool | BTime nat | BInt int | BNull










text \<open>\<^verbatim>\<open>strings.Join(errors, ", ")\<close>\<close>

fun Join :: "string list \<Rightarrow> string \<Rightarrow> string" where
  "Join [] sep = []"
| "Join [x] sep = x"
| "Join (x # y # ys) sep = x @ sep @ Join (y # ys) sep"


section \<open>The world: document store, cache and environment\<close>

text \<open>
  What the cache holds is a string; the model keeps what the string parses to. \<open>JUser\<close>,
  \<open>JList\<close> and \<open>JStats\<close> are the JSON objects the service writes, \<open>JNull\<close> is
  \<^verbatim>\<open>null\<close>, and \<open>Raw\<close> is any text that is not a JSON object (the existence flags
  \<^verbatim>\<open>true\<close> and \<^verbatim>\<open>false\<close>). The same type stands for the \<^verbatim>\<open>map[string]interface{}\<close>
  of the statistics. The average of the login counts, a float in the source, is the
  exact quotient. Expiry is not modelled: an entry stays until it is deleted or overwritten.
\<close>

record user_stats =
  total_users :: int
  active_users :: int
  verified_users :: int
  avg_login_count :: rat

datatype json = JUser user | JList UserListResponse | JStats user_stats | JNull | Raw string

text \<open>
  \<open>docs\<close> is the users collection in insertion order and \<open>indexes\<close> tells whether the
  unique indexes on username and email exist (\<^verbatim>\<open>EnsureIndexes\<close> may fail at start-up, which
  is logged only). \<open>cache_faults\<close> and \<open>db_faults\<close> schedule the failures of the two
  back ends: each call of a back end takes the next flag, and fails when it is \<open>True\<close>;
  an empty schedule is a back end that works. \<open>entropy\<close> holds what the next calls of
  \<^verbatim>\<open>rand.Read\<close> return (\<open>None\<close>: an error). \<open>store_errs\<close> is bookkeeping of the model,
  read by no operation: it counts the errors the persistence layer has produced.
\<close>

record world =
  docs :: "user list"
  indexes :: bool
  cache :: "string \<Rightarrow> json option"
  cache_faults :: "bool list"
  db_faults :: "bool list"
  clock :: nat
  next_oid :: nat
  entropy :: "string option list"
  store_errs :: nat

type_synonym 'a result = "(error + 'a) \<times> world"

definition next_fault :: "bool list \<Rightarrow> bool \<times> bool list" where
  "next_fault fs = (case fs of [] \<Rightarrow> (False, []) | f # r \<Rightarrow> (f, r))"

subsection \<open>The cache gateway (RedisCache)\<close>

definition redis_error :: error where
  "redis_error = Err FromCache ''redis: operation failed''"

definition cache_Get :: "string \<Rightarrow> world \<Rightarrow> json result" where
  "cache_Get key w =
     (let (failed, rest) = next_fault (cache_faults w); w1 = w\<lparr>cache_faults := rest\<rparr>
      in if failed then (Inl redis_error, w1)
         else case cache w key of
                None \<Rightarrow> (Inl (Err FromCache (''key not found: '' @ key)), w1)
              | Some v \<Rightarrow> (Inr v, w1))"

definition cache_Set :: "string \<Rightarrow> json \<Rightarrow> world \<Rightarrow> error option \<times> world" where
  "cache_Set key v w =
     (let (failed, rest) = next_fault (cache_faults w); w1 = w\<lparr>cache_faults := rest\<rparr>
      in if failed then (Some redis_error, w1)
         else (None, w1\<lparr>cache := (cache w)(key \<mapsto> v)\<rparr>))"

definition cache_Delete :: "string \<Rightarrow> world \<Rightarrow> error option \<times> world" where
  "cache_Delete key w =
     (let (failed, rest) = next_fault (cache_faults w); w1 = w\<lparr>cache_faults := rest\<rparr>
      in if failed then (Some redis_error, w1)
         else (None, w1\<lparr>cache := (cache w)(key := None)\<rparr>))"

subsection \<open>The collection (the MongoDB driver)\<close>

definition mongo_error :: error where
  "mongo_error = Err FromStore ''mongo: operation failed''"

definition store_fail :: "error \<Rightarrow> world \<Rightarrow> 'a result" where
  "store_fail e w = (Inl e, w\<lparr>store_errs := Suc (store_errs w)\<rparr>)"

definition coll_fault :: "world \<Rightarrow> bool \<times> world" where
  "coll_fault w = (let (failed, rest) = next_fault (db_faults w) in (failed, w\<lparr>db_faults := rest\<rparr>))"

text \<open>The filter \<^verbatim>\<open>"deleted_at": {"$exists": false}\<close>.\<close>

definition live :: "user \<Rightarrow> bool" where
  "live d = (DeletedAt d = None)"

text \<open>\<^verbatim>\<open>FindOne\<close>: the first document of the filter; \<open>None\<close> is \<^verbatim>\<open>mongo.ErrNoDocuments\<close>.\<close>

definition FindOne :: "(user \<Rightarrow> bool) \<Rightarrow> world \<Rightarrow> user option result" where
  "FindOne flt w =
     (let (failed, w1) = coll_fault w
      in if failed then store_fail mongo_error w1 else (Inr (find flt (docs w1)), w1))"

definition CountDocuments :: "(user \<Rightarrow> bool) \<Rightarrow> world \<Rightarrow> int result" where
  "CountDocuments flt w =
     (let (failed, w1) = coll_fault w
      in if failed then store_fail mongo_error w1
         else (Inr (int (length (filter flt (docs w1)))), w1))"









definition DeleteOne :: "(user \<Rightarrow> bool) \<Rightarrow> world \<Rightarrow> nat result" where
  "DeleteOne flt w =
     (let (failed, w1) = coll_fault w
      in if failed then store_fail mongo_error w1
         else case find flt (docs w1) of
                None \<Rightarrow> (Inr 0, w1)
              | Some d \<Rightarrow> (Inr 1, w1\<lparr>docs := remove1 d (docs w1)\<rparr>))"





subsection \<open>The repository (internal/repositories/user_repository.go)\<close>

definition repo_ExistsByUsername :: "string \<Rightarrow> world \<Rightarrow> bool result" where
  "repo_ExistsByUsername username w =
     (case CountDocuments (\<lambda>d. Username d = username \<and> live d) w of
        (Inl e, w1) \<Rightarrow> (Inl (Wrapped ''failed to check username existence'' e), w1)
      | (Inr count, w1) \<Rightarrow> (Inr (count > 0), w1))"

definition repo_ExistsByEmail :: "string \<Rightarrow> world \<Rightarrow> bool result" where
  "repo_ExistsByEmail email w =
     (case CountDocuments (\<lambda>d. Email d = email \<and> live d) w of
        (Inl e, w1) \<Rightarrow> (Inl (Wrapped ''failed to check email existence'' e), w1)
      | (Inr count, w1) \<Rightarrow> (Inr (count > 0), w1))"


definition found_or_missing :: "string \<Rightarrow> user option result \<Rightarrow> user result" where
  "found_or_missing ctx r =
     (case r of
        (Inl e, w1) \<Rightarrow> (Inl (Wrapped ctx e), w1)
      | (Inr None, w1) \<Rightarrow> store_fail (Err FromStore ''user not found'') w1
      | (Inr (Some u), w1) \<Rightarrow> (Inr u, w1))"

definition repo_GetByID :: "string \<Rightarrow> world \<Rightarrow> user result" where
  "repo_GetByID id' w =
     (case ObjectIDFromHex id' of
        Inl e \<Rightarrow> store_fail (Wrapped ''invalid user ID format'' e) w
      | Inr objectID \<Rightarrow>
          found_or_missing ''failed to get user by ID''
            (FindOne (\<lambda>d. ID d = objectID \<and> live d) w))"

definition repo_GetByUsername :: "string \<Rightarrow> world \<Rightarrow> user result" where
  "repo_GetByUsername username w =
     found_or_missing ''failed to get user by username''
       (FindOne (\<lambda>d. Username d = username \<and> live d) w)"

definition repo_GetByEmail :: "string \<Rightarrow> world \<Rightarrow> user result" where
  "repo_GetByEmail email w =
     found_or_missing ''failed to get user by email''
       (FindOne (\<lambda>d. Email d = email \<and> live d) w)"


definition repo_Delete :: "string \<Rightarrow> world \<Rightarrow> unit result" where
  "repo_Delete id' w =
     (case ObjectIDFromHex id' of
        Inl e \<Rightarrow> store_fail (Wrapped ''invalid user ID format'' e) w
      | Inr objectID \<Rightarrow>
          (case DeleteOne (\<lambda>d. ID d = objectID) w of
             (Inl e, w1) \<Rightarrow> (Inl (Wrapped ''failed to delete user'' e), w1)
           | (Inr deleted, w1) \<Rightarrow>
               if deleted = 0 then store_fail (Err FromStore ''user not found'') w1
               else (Inr (), w1)))"









section \<open>Constructing and changing a user (internal/models/user.go)\<close>



text \<open>
  \<^verbatim>\<open>User.UpdateUser\<close> changes the user field by field and stops at the first field that
  fails; the model returns the user as the method leaves it, beside the error. \<open>now\<close> is
  the time \<^verbatim>\<open>UpdateTimestamp\<close> reads. \<open>str_field\<close> is the type assertion
  \<^verbatim>\<open>updates[k].(string)\<close>.
\<close>

definition str_field :: "(string \<times> bson) list \<Rightarrow> string \<Rightarrow> string option" where
  "str_field updates k = (case map_of updates k of Some (BString s) \<Rightarrow> Some s | _ \<Rightarrow> None)"

definition with_field ::
  "(string \<times> bson) list \<Rightarrow> string \<Rightarrow> (string \<Rightarrow> user \<Rightarrow> error option \<times> user)
   \<Rightarrow> error option \<times> user \<Rightarrow> error option \<times> user" where
  "with_field updates k step r =
     (case r of
        (Some e, u) \<Rightarrow> (Some e, u)
      | (None, u) \<Rightarrow> (case str_field updates k of None \<Rightarrow> (None, u) | Some v \<Rightarrow> step v u))"

definition User_UpdateUser :: "nat \<Rightarrow> user \<Rightarrow> (string \<times> bson) list \<Rightarrow> error option \<times> user" where
  "User_UpdateUser now u0 updates =
     (with_field updates ''website''
        (\<lambda>website u. if website \<noteq> [] \<and> \<not> isValidURL website
                      then (Some (Err FromModel ''invalid website URL format''), u)
                      else (None, u\<lparr>Website := TrimSpace website\<rparr>))
     (with_field updates ''location'' (\<lambda>location u. (None, u\<lparr>Location := TrimSpace location\<rparr>))
     (with_field updates ''bio''
        (\<lambda>bio u. if length bio > 500
                  then (Some (Err FromModel ''bio cannot exceed 500 characters''), u)
                  else (None, u\<lparr>Bio := TrimSpace bio\<rparr>))
     (with_field updates ''last_name'' (\<lambda>lastName u. (None, u\<lparr>LastName := TrimSpace lastName\<rparr>))
     (with_field updates ''first_name''
        (\<lambda>firstName u. (None, u\<lparr>FirstName := TrimSpace firstName\<rparr>))
     (with_field updates ''email''
        (\<lambda>email u.
           case ValidateEmail email of
             Some e \<Rightarrow> (Some e, u)
           | None \<Rightarrow>
               (let u1 = (if Email u \<noteq> ToLower (TrimSpace email)
                          then u\<lparr>IsVerified := False, EmailVerifiedAt := None\<rparr> else u)
                in (None, u1\<lparr>Email := ToLower (TrimSpace email)\<rparr>)))
     (with_field updates ''username''
        (\<lambda>username u.
           case ValidateUsername username of
             Some e \<Rightarrow> (Some e, u)
           | None \<Rightarrow> (None, u\<lparr>Username := ToLower (TrimSpace username)\<rparr>))
        (None, u0\<lparr>UpdatedAt := now\<rparr>))))))))"


section \<open>The cache-aside service (internal/modules/users/service.go)\<close>

subsection \<open>Cache keys and JSON\<close>

definition CacheKeyUser :: "string \<Rightarrow> string" where
  "CacheKeyUser v = ''user:id:'' @ v"

definition CacheKeyUserByEmail :: "string \<Rightarrow> string" where
  "CacheKeyUserByEmail v = ''user:email:'' @ v"

definition CacheKeyUserUsername :: "string \<Rightarrow> string" where
  "CacheKeyUserUsername v = ''user:username:'' @ v"

definition CacheKeyUserStats :: string where
  "CacheKeyUserStats = ''user:stats''"


definition CacheKeyUserExists :: "string \<Rightarrow> string \<Rightarrow> string" where
  "CacheKeyUserExists field v = ''user:exists:'' @ field @ '':'' @ v"

text \<open>
  \<^verbatim>\<open>json.Marshal\<close> of a user leaves out the fields tagged \<^verbatim>\<open>json:"-"\<close>: password, salt,
  failed logins and the time of the last failure. Decoding gives them their zero values.
\<close>

definition Marshal_user :: "user \<Rightarrow> json" where
  "Marshal_user u = JUser (u\<lparr>Password := [], Salt := [], FailedLogins := 0, LastFailedAt := None\<rparr>)"

definition decode_error :: error where
  "decode_error = Err FromCodec ''json: cannot unmarshal into Go value''"

text \<open>
  \<^verbatim>\<open>json.Unmarshal\<close> into a struct ignores the keys the struct does not have, so an
  object of another shape, or \<^verbatim>\<open>null\<close>, decodes to the zero value; text that is not an
  object is an error. Into a map, every object decodes to itself.
\<close>

definition Unmarshal_user :: "json \<Rightarrow> error + user" where
  "Unmarshal_user j = (case j of JUser u \<Rightarrow> Inr u | Raw s \<Rightarrow> Inl decode_error | _ \<Rightarrow> Inr zero_user)"








subsection \<open>Helpers of the service\<close>

definition getUserFromCache :: "string \<Rightarrow> world \<Rightarrow> user result" where
  "getUserFromCache key w =
     (case cache_Get key w of
        (Inl e, w1) \<Rightarrow> (Inl e, w1)
      | (Inr cached, w1) \<Rightarrow>
          (case Unmarshal_user cached of Inl e \<Rightarrow> (Inl e, w1) | Inr u \<Rightarrow> (Inr u, w1)))"

text \<open>A failed \<^verbatim>\<open>Set\<close> or \<^verbatim>\<open>Delete\<close> is logged, and the loop goes on to the next key.\<close>

definition user_keys :: "user \<Rightarrow> string list" where
  "user_keys u = [CacheKeyUser (GetIDString u), CacheKeyUserByEmail (Email u),
                  CacheKeyUserUsername (Username u)]"

definition cacheUser :: "user \<Rightarrow> world \<Rightarrow> world" where
  "cacheUser u w = fold (\<lambda>key w'. snd (cache_Set key (Marshal_user u) w')) (user_keys u) w"

definition invalidated_keys :: "user \<Rightarrow> string list" where
  "invalidated_keys u = [CacheKeyUser (GetIDString u), CacheKeyUserByEmail (Email u),
                         CacheKeyUserUsername (Username u),
                         CacheKeyUserExists ''email'' (Email u),
                         CacheKeyUserExists ''username'' (Username u)]"

definition invalidateUserCaches :: "user \<Rightarrow> world \<Rightarrow> world" where
  "invalidateUserCaches u w = fold (\<lambda>key w'. snd (cache_Delete key w')) (invalidated_keys u) w"

text \<open>\<^verbatim>\<open>invalidateUserListCaches\<close> logs the pattern \<^verbatim>\<open>user:list:*\<close> and does nothing else.\<close>

definition invalidateUserListCaches :: "world \<Rightarrow> world" where
  "invalidateUserListCaches w = w"

definition invalidateUserStats :: "world \<Rightarrow> world" where
  "invalidateUserStats w = snd (cache_Delete CacheKeyUserStats w)"

definition checkUserExists :: "string \<Rightarrow> string \<Rightarrow> world \<Rightarrow> bool result" where
  "checkUserExists field v w =
     (let cacheKey = CacheKeyUserExists field v
      in case cache_Get cacheKey w of
           (Inr cached, w1) \<Rightarrow> (Inr (cached = Raw ''true''), w1)
         | (Inl ce, w1) \<Rightarrow>
             (if field = ''email'' \<or> field = ''username'' then
                (case (if field = ''email'' then repo_ExistsByEmail v w1
                       else repo_ExistsByUsername v w1) of
                   (Inl e, w2) \<Rightarrow> (Inl e, w2)
                 | (Inr found, w2) \<Rightarrow>
                     (Inr found,
                      snd (cache_Set cacheKey (Raw (if found then ''true'' else ''false'')) w2)))
              else (Inl (Err FromService (''unsupported field: '' @ field)), w1)))"

text \<open>
  The block that \<^verbatim>\<open>CreateUser\<close> and \<^verbatim>\<open>UpdateUser\<close> repeat for the username and for the
  email: the existence check, its error wrapped, and the rejection of a value that exists.
\<close>

definition ensure_absent :: "string \<Rightarrow> string \<Rightarrow> world \<Rightarrow> error option \<times> world" where
  "ensure_absent field v w =
     (case checkUserExists field v w of
        (Inl e, w1) \<Rightarrow> (Some (Wrapped (''failed to validate '' @ field) e), w1)
      | (Inr found, w1) \<Rightarrow>
          if found
          then (Some (Err FromService (field @ '' '' @ [CHR 0x27] @ v @ [CHR 0x27] @ '' already exists'')),
                w1)
          else (None, w1))"

definition validation_failed :: "string list \<Rightarrow> error" where
  "validation_failed errors = Err FromService (''validation failed: '' @ Join errors '', '')"


definition cacheUserList :: "string \<Rightarrow> UserListResponse \<Rightarrow> world \<Rightarrow> world" where
  "cacheUserList key l w = snd (cache_Set key (JList l) w)"



subsection \<open>The operations of the service\<close>


definition GetUserByID :: "string \<Rightarrow> world \<Rightarrow> user result" where
  "GetUserByID id' w =
     (case getUserFromCache (CacheKeyUser id') w of
        (Inr cached, w1) \<Rightarrow> (Inr cached, w1)
      | (Inl ce, w1) \<Rightarrow>
          (case repo_GetByID id' w1 of
             (Inl e, w2) \<Rightarrow> (Inl e, w2)
           | (Inr u, w2) \<Rightarrow> (Inr u, cacheUser u w2)))"

definition GetUserByEmail :: "string \<Rightarrow> world \<Rightarrow> user result" where
  "GetUserByEmail email w =
     (case getUserFromCache (CacheKeyUserByEmail email) w of
        (Inr cached, w1) \<Rightarrow> (Inr cached, w1)
      | (Inl ce, w1) \<Rightarrow>
          (case repo_GetByEmail email w1 of
             (Inl e, w2) \<Rightarrow> (Inl e, w2)
           | (Inr u, w2) \<Rightarrow> (Inr u, cacheUser u w2)))"

definition GetUserByUsername :: "string \<Rightarrow> world \<Rightarrow> user result" where
  "GetUserByUsername username w =
     (case getUserFromCache (CacheKeyUserUsername username) w of
        (Inr cached, w1) \<Rightarrow> (Inr cached, w1)
      | (Inl ce, w1) \<Rightarrow>
          (case repo_GetByUsername username w1 of
             (Inl e, w2) \<Rightarrow> (Inl e, w2)
           | (Inr u, w2) \<Rightarrow> (Inr u, cacheUser u w2)))"

text \<open>
  The uniqueness check of \<^verbatim>\<open>UpdateUser\<close> for one field runs when the map has a string
  for the field that differs from the current value.
\<close>

definition check_changed ::
  "string \<Rightarrow> (string \<times> bson) list \<Rightarrow> string \<Rightarrow> world \<Rightarrow> error option \<times> world" where
  "check_changed field updates current w =
     (case str_field updates field of
        None \<Rightarrow> (None, w)
      | Some v \<Rightarrow> if v \<noteq> current then ensure_absent field v w else (None, w))"











section \<open>Predicates of the statements\<close>

text \<open>
  What a call of the persistence layer does to the bookkeeping: an error it returns was
  produced by the store and is counted once, and a call that succeeds counts nothing.
\<close>

definition store_res :: "world \<Rightarrow> error + 'a \<Rightarrow> world \<Rightarrow> bool" where
  "store_res w r w' =
     (case r of
        Inl e \<Rightarrow> origin_of e = FromStore \<and> store_errs w' = Suc (store_errs w)
      | Inr x \<Rightarrow> store_errs w' = store_errs w)"

definition same_cache :: "world \<Rightarrow> world \<Rightarrow> bool" where
  "same_cache w w' = (cache w' = cache w \<and> cache_faults w' = cache_faults w)"

text \<open>
  The error policy of the service, for one run from \<open>w\<close> to \<open>w'\<close> with result \<open>r\<close>:
  an error the service returns never comes from the cache or from decoding a cached value;
  when the store produced an error during the run, the service returns an error, and it is
  that store error (wrapped); and a run that succeeds saw no store error.
\<close>

definition error_policy :: "world \<Rightarrow> error + 'a \<Rightarrow> world \<Rightarrow> bool" where
  "error_policy w r w' =
     (case r of
        Inl e \<Rightarrow> origin_of e \<noteq> FromCache \<and> origin_of e \<noteq> FromCodec
                 \<and> (store_errs w' = store_errs w
                      \<or> (store_errs w' = Suc (store_errs w) \<and> origin_of e = FromStore))
      | Inr x \<Rightarrow> store_errs w' = store_errs w)"


text \<open>The user is in the cache under its id, its email and its username.\<close>

definition cached_under_all_keys :: "user \<Rightarrow> world \<Rightarrow> bool" where
  "cached_under_all_keys u w =
     (cache w (CacheKeyUser (GetIDString u)) = Some (Marshal_user u)
      \<and> cache w (CacheKeyUserByEmail (Email u)) = Some (Marshal_user u)
      \<and> cache w (CacheKeyUserUsername (Username u)) = Some (Marshal_user u))"

text \<open>No entry of the cache is lost from \<open>w\<close> to \<open>w'\<close>, and a working cache keeps working.\<close>

definition grows :: "world \<Rightarrow> world \<Rightarrow> bool" where
  "grows w w' = ((\<forall>k. cache w k \<noteq> None \<longrightarrow> cache w' k \<noteq> None)
                 \<and> (cache_faults w = [] \<longrightarrow> cache_faults w' = []))"

text \<open>Where the unique indexes exist, no two documents share a username or an email.\<close>

definition unique_identities :: "world \<Rightarrow> bool" where
  "unique_identities w =
     (indexes w \<longrightarrow> distinct (map Username (docs w)) \<and> distinct (map Email (docs w)))"

text \<open>Concrete inputs: two users, and a world whose back ends work and whose cache is empty.\<close>

definition alice :: user where
  "alice = zero_user\<lparr>ID := ''65a1b2c3d4e5f60718293a4b'', CreatedAt := 5, UpdatedAt := 5,
     Username := ''alice'', Email := ''alice@x.io'', Password := ''5e88'', Salt := ''ab'',
     IsActive := True, Roles := [RoleUser]\<rparr>"

definition bob :: user where
  "bob = zero_user\<lparr>ID := ''65a1b2c3d4e5f60718293a4c'', CreatedAt := 7, UpdatedAt := 7,
     Username := ''bob'', Email := ''bob@y.org'', IsActive := True, IsVerified := True,
     EmailVerifiedAt := Some 8, Roles := [RoleUser]\<rparr>"

definition quiet_world :: "user list \<Rightarrow> world" where
  "quiet_world ds = \<lparr>docs = ds, indexes = True, cache = Map.empty, cache_faults = [],
     db_faults = [], clock = 10, next_oid = 1, entropy = [], store_errs = 0\<rparr>"

section \<open>Properties of the validators\<close>

lemma ValidatePassword_None_iff:
  "ValidatePassword p = None \<longleftrightarrow>
     8 \<le> length p \<and> length p \<le> 128 \<and> list_ex is_upper p \<and> list_ex is_lower p \<and> list_ex is_digit p"
  by (auto simp: ValidatePassword_def Let_def)

text \<open>
  C4 (amended). The validator of the credential hashing helper is the validator of the
  service level: for every password the two return the same result. The helper accepts a
  password exactly when it has 8 to 128 bytes, an upper-case letter, a lower-case letter
  and a digit; so an accepted password has at least three of the four classes, and no
  rule of the helper counts classes or looks at symbols.
\<close>

theorem helper_password_policy_is_service_policy:
  "PasswordService_ValidatePassword ps p = ValidatePassword p
   \<and> (PasswordService_ValidatePassword ps p = None \<longleftrightarrow>
        8 \<le> length p \<and> length p \<le> 128
        \<and> list_ex is_upper p \<and> list_ex is_lower p \<and> list_ex is_digit p)
   \<and> (PasswordService_ValidatePassword ps p = None \<longrightarrow> 3 \<le> class_count p)"
proof -
  have same: "PasswordService_ValidatePassword ps p = ValidatePassword p"
    by (simp add: PasswordService_ValidatePassword_def ValidatePassword_def)
  have "3 \<le> class_count p" if "ValidatePassword p = None"
    using that by (simp add: ValidatePassword_None_iff class_count_def)
  with same show ?thesis
    by (simp add: ValidatePassword_None_iff)
qed

theorem helper_password_policy_witness:
  "PasswordService_ValidatePassword NewPasswordService ''Abcdefg1'' = None
   \<and> 3 \<le> class_count ''Abcdefg1''"
proof -
  have "PasswordService_ValidatePassword NewPasswordService ''Abcdefg1'' = None"
    by (simp add: PasswordService_ValidatePassword_def is_upper_def is_lower_def is_digit_def
        byte_def)
  with helper_password_policy_is_service_policy [of NewPasswordService "''Abcdefg1''"]
  show ?thesis by simp
qed

text \<open>
  C4 as stated fails. The password \<^verbatim>\<open>abcdefg1!\<close> has three of the four classes (lower
  case, digit, symbol) and nine bytes, and the helper refuses it; and no password is
  accepted by the service level and refused by the helper, so the helper's policy is not
  the stronger one.
\<close>

theorem helper_password_policy_counterexample:
  "class_count ''abcdefg1!'' = 3
   \<and> PasswordService_ValidatePassword NewPasswordService ''abcdefg1!'' = Some password_classes_error
   \<and> \<not> (\<exists>p. ValidatePassword p = None \<and> PasswordService_ValidatePassword NewPasswordService p \<noteq> None)"
proof -
  have "class_count ''abcdefg1!'' = 3"
    by (simp add: class_count_def is_alnum_def is_alpha_def is_upper_def is_lower_def
        is_digit_def byte_def)
  moreover have
    "PasswordService_ValidatePassword NewPasswordService ''abcdefg1!'' = Some password_classes_error"
    by (simp add: PasswordService_ValidatePassword_def is_upper_def is_lower_def is_digit_def
        byte_def)
  moreover have "PasswordService_ValidatePassword NewPasswordService p = ValidatePassword p" for p
    by (simp add: PasswordService_ValidatePassword_def ValidatePassword_def)
  then have "\<not> (\<exists>p. ValidatePassword p = None
                  \<and> PasswordService_ValidatePassword NewPasswordService p \<noteq> None)"
    by auto
  ultimately show ?thesis by blast
qed

section \<open>What a call of a back end changes\<close>

lemma next_fault_Nil [simp]: "next_fault [] = (False, [])"
  by (simp add: next_fault_def)

lemma cache_Get_ok:
  "cache_faults w = [] \<Longrightarrow>
   cache_Get key w = (case cache w key of
                        None \<Rightarrow> Inl (Err FromCache (''key not found: '' @ key))
                      | Some v \<Rightarrow> Inr v, w)"
  by (cases w) (simp add: cache_Get_def split: option.splits)

lemma cache_Set_ok:
  "cache_faults w = [] \<Longrightarrow> cache_Set key v w = (None, w\<lparr>cache := (cache w)(key \<mapsto> v)\<rparr>)"
  by (cases w) (simp add: cache_Set_def)


lemma coll_fault_ok: "db_faults w = [] \<Longrightarrow> coll_fault w = (False, w)"
  by (cases w) (simp add: coll_fault_def)

lemma cacheUser_ok:
  "cache_faults w = [] \<Longrightarrow>
   cacheUser u w = w\<lparr>cache := (cache w)(CacheKeyUser (GetIDString u) \<mapsto> Marshal_user u,
                                         CacheKeyUserByEmail (Email u) \<mapsto> Marshal_user u,
                                         CacheKeyUserUsername (Username u) \<mapsto> Marshal_user u)\<rparr>"
  by (simp add: cacheUser_def user_keys_def cache_Set_ok)



lemma store_res_simps [simp]:
  "store_res w (Inl e) w' = (origin_of e = FromStore \<and> store_errs w' = Suc (store_errs w))"
  "store_res w (Inr x) w' = (store_errs w' = store_errs w)"
  by (simp_all add: store_res_def)

lemma same_cache_refl [simp]: "same_cache w w"
  by (simp add: same_cache_def)

lemma same_cache_trans: "same_cache w w1 \<Longrightarrow> same_cache w1 w2 \<Longrightarrow> same_cache w w2"
  by (simp add: same_cache_def)

lemma coll_fault_frame:
  "coll_fault w = (b, w') \<Longrightarrow>
   same_cache w w' \<and> docs w' = docs w \<and> indexes w' = indexes w \<and> clock w' = clock w
   \<and> store_errs w' = store_errs w \<and> entropy w' = entropy w \<and> next_oid w' = next_oid w"
  by (auto simp: coll_fault_def same_cache_def split: prod.splits)

lemma FindOne_facts:
  "FindOne f w = (r, w') \<Longrightarrow>
   same_cache w w' \<and> docs w' = docs w \<and> clock w' = clock w \<and> store_res w r w'"
  by (auto simp: FindOne_def Let_def same_cache_def store_fail_def mongo_error_def
      split: prod.splits if_splits dest!: coll_fault_frame)

lemma CountDocuments_facts:
  "CountDocuments f w = (r, w') \<Longrightarrow>
   same_cache w w' \<and> docs w' = docs w \<and> clock w' = clock w \<and> store_res w r w'"
  by (auto simp: CountDocuments_def Let_def same_cache_def store_fail_def mongo_error_def
      split: prod.splits if_splits dest!: coll_fault_frame)





lemma repo_ExistsByUsername_facts:
  "repo_ExistsByUsername n w = (r, w') \<Longrightarrow>
   same_cache w w' \<and> docs w' = docs w \<and> clock w' = clock w \<and> store_res w r w'"
  by (auto simp: repo_ExistsByUsername_def split: prod.splits sum.splits
      dest!: CountDocuments_facts)

lemma repo_ExistsByEmail_facts:
  "repo_ExistsByEmail n w = (r, w') \<Longrightarrow>
   same_cache w w' \<and> docs w' = docs w \<and> clock w' = clock w \<and> store_res w r w'"
  by (auto simp: repo_ExistsByEmail_def split: prod.splits sum.splits
      dest!: CountDocuments_facts)

lemma found_or_missing_facts:
  assumes "found_or_missing ctx (FindOne f w) = (r, w')"
  shows "same_cache w w' \<and> docs w' = docs w \<and> clock w' = clock w \<and> store_res w r w'"
proof -
  obtain r0 w0 where f: "FindOne f w = (r0, w0)" by (cases "FindOne f w")
  from FindOne_facts [OF f] assms f show ?thesis
    by (auto simp: found_or_missing_def store_fail_def same_cache_def
        split: sum.splits option.splits)
qed

lemma repo_GetByID_facts:
  "repo_GetByID i w = (r, w') \<Longrightarrow>
   same_cache w w' \<and> docs w' = docs w \<and> clock w' = clock w \<and> store_res w r w'"
  by (auto simp: repo_GetByID_def store_fail_def ObjectIDFromHex_def same_cache_def
      split: sum.splits if_splits dest!: found_or_missing_facts)

lemma repo_GetByUsername_facts:
  "repo_GetByUsername i w = (r, w') \<Longrightarrow>
   same_cache w w' \<and> docs w' = docs w \<and> clock w' = clock w \<and> store_res w r w'"
  by (auto simp: repo_GetByUsername_def dest!: found_or_missing_facts)

lemma repo_GetByEmail_facts:
  "repo_GetByEmail i w = (r, w') \<Longrightarrow>
   same_cache w w' \<and> docs w' = docs w \<and> clock w' = clock w \<and> store_res w r w'"
  by (auto simp: repo_GetByEmail_def dest!: found_or_missing_facts)






section \<open>The concrete inputs\<close>

lemma alice_simps [simp]:
  "ID alice = ''65a1b2c3d4e5f60718293a4b''" "Username alice = ''alice''"
  "Email alice = ''alice@x.io''" "DeletedAt alice = None" "IsVerified alice = False"
  by (simp_all add: alice_def zero_user_def)

lemma ObjectIDFromHex_alice [simp]:
  "ObjectIDFromHex ''65a1b2c3d4e5f60718293a4b'' = Inr ''65a1b2c3d4e5f60718293a4b''"
  by (simp add: ObjectIDFromHex_def is_hex_def is_digit_def byte_def ToLower_def lower_char_def
      is_upper_def)

lemma quiet_world_simps [simp]:
  "docs (quiet_world ds) = ds" "cache (quiet_world ds) = Map.empty"
  "cache_faults (quiet_world ds) = []" "db_faults (quiet_world ds) = []"
  "indexes (quiet_world ds) = True" "clock (quiet_world ds) = 10"
  "store_errs (quiet_world ds) = 0"
  by (simp_all add: quiet_world_def)

lemma reads_of_quiet_world:
  "getUserFromCache key (quiet_world [alice])
     = (Inl (Err FromCache (''key not found: '' @ key)), quiet_world [alice])"
  "repo_GetByID ''65a1b2c3d4e5f60718293a4b'' (quiet_world [alice]) = (Inr alice, quiet_world [alice])"
  "repo_GetByEmail ''alice@x.io'' (quiet_world [alice]) = (Inr alice, quiet_world [alice])"
  "repo_GetByUsername ''alice'' (quiet_world [alice]) = (Inr alice, quiet_world [alice])"
  by (simp_all add: getUserFromCache_def cache_Get_ok repo_GetByID_def repo_GetByEmail_def
      repo_GetByUsername_def found_or_missing_def FindOne_def coll_fault_ok live_def)

section \<open>Errors of the cache and errors of the store\<close>

lemma error_policy_simps [simp]:
  "error_policy w (Inl e) w' =
     (origin_of e \<noteq> FromCache \<and> origin_of e \<noteq> FromCodec
      \<and> (store_errs w' = store_errs w
           \<or> (store_errs w' = Suc (store_errs w) \<and> origin_of e = FromStore)))"
  "error_policy w (Inr x) w' = (store_errs w' = store_errs w)"
  by (simp_all add: error_policy_def)


lemma cache_Set_store: "cache_Set k v w = (r, w') \<Longrightarrow> store_errs w' = store_errs w \<and> docs w' = docs w"
  by (auto simp: cache_Set_def Let_def split: prod.splits if_splits)

lemma cache_Delete_store: "cache_Delete k w = (r, w') \<Longrightarrow> store_errs w' = store_errs w \<and> docs w' = docs w"
  by (auto simp: cache_Delete_def Let_def split: prod.splits if_splits)

lemma snd_cache_Set_store [simp]:
  "store_errs (snd (cache_Set k v w)) = store_errs w" "docs (snd (cache_Set k v w)) = docs w"
  by (simp_all add: cache_Set_def Let_def split: prod.splits)

lemma snd_cache_Delete_store [simp]:
  "store_errs (snd (cache_Delete k w)) = store_errs w" "docs (snd (cache_Delete k w)) = docs w"
  by (simp_all add: cache_Delete_def Let_def split: prod.splits)

lemma fold_cache_Set_store [simp]:
  "store_errs (fold (\<lambda>key w'. snd (cache_Set key v w')) ks w) = store_errs w"
  "docs (fold (\<lambda>key w'. snd (cache_Set key v w')) ks w) = docs w"
  by (induction ks arbitrary: w) simp_all

lemma fold_cache_Delete_store [simp]:
  "store_errs (fold (\<lambda>key w'. snd (cache_Delete key w')) ks w) = store_errs w"
  "docs (fold (\<lambda>key w'. snd (cache_Delete key w')) ks w) = docs w"
  by (induction ks arbitrary: w) simp_all

lemma cache_writes_store [simp]:
  "store_errs (cacheUser u w) = store_errs w" "docs (cacheUser u w) = docs w"
  "store_errs (invalidateUserCaches u w) = store_errs w" "docs (invalidateUserCaches u w) = docs w"
  "store_errs (invalidateUserStats w) = store_errs w" "docs (invalidateUserStats w) = docs w"
  "store_errs (invalidateUserListCaches w) = store_errs w" "docs (invalidateUserListCaches w) = docs w"
  "store_errs (cacheUserList k l w) = store_errs w" "docs (cacheUserList k l w) = docs w"
  by (simp_all add: cacheUser_def invalidateUserCaches_def invalidateUserStats_def
      invalidateUserListCaches_def cacheUserList_def)



lemma store_res_policy: "store_res w r w' \<Longrightarrow> error_policy w r w'"
  by (cases r) auto











lemma validation_failed_origin [simp]: "origin_of (validation_failed es) = FromService"
  by (simp add: validation_failed_def)

















section \<open>Reads that miss the cache\<close>

lemma cacheUser_warms:
  "cache_faults w = [] \<Longrightarrow> cached_under_all_keys u (cacheUser u w)"
  by (simp add: cacheUser_ok cached_under_all_keys_def)

text \<open>
  C1. A read by id, by email or by username whose cache lookup misses (the key is absent,
  the cache fails or the value does not decode) goes to the persistence gateway. When the
  gateway returns the user, the read returns that user, and (with a cache that works from
  the miss on) the cache then holds the user under all three keys:
  \<^verbatim>\<open>user:id:\<close>, \<^verbatim>\<open>user:email:\<close> and \<^verbatim>\<open>user:username:\<close>.
\<close>

theorem read_miss_falls_through_and_fills_all_keys:
  assumes miss: "getUserFromCache key w = (Inl ce, w1)" and ok: "cache_faults w1 = []"
  shows "(key = CacheKeyUser id' \<and> repo_GetByID id' w1 = (Inr u, w2) \<longrightarrow>
            GetUserByID id' w = (Inr u, cacheUser u w2) \<and> cached_under_all_keys u (cacheUser u w2))
       \<and> (key = CacheKeyUserByEmail email \<and> repo_GetByEmail email w1 = (Inr u, w2) \<longrightarrow>
            GetUserByEmail email w = (Inr u, cacheUser u w2)
            \<and> cached_under_all_keys u (cacheUser u w2))
       \<and> (key = CacheKeyUserUsername username \<and> repo_GetByUsername username w1 = (Inr u, w2) \<longrightarrow>
            GetUserByUsername username w = (Inr u, cacheUser u w2)
            \<and> cached_under_all_keys u (cacheUser u w2))"
proof (intro conjI impI; elim conjE)
  assume "key = CacheKeyUser id'" and r: "repo_GetByID id' w1 = (Inr u, w2)"
  with miss show "GetUserByID id' w = (Inr u, cacheUser u w2)"
    by (simp add: GetUserByID_def)
  from repo_GetByID_facts [OF r] ok have "cache_faults w2 = []" by (simp add: same_cache_def)
  then show "cached_under_all_keys u (cacheUser u w2)" by (rule cacheUser_warms)
next
  assume "key = CacheKeyUserByEmail email" and r: "repo_GetByEmail email w1 = (Inr u, w2)"
  with miss show "GetUserByEmail email w = (Inr u, cacheUser u w2)"
    by (simp add: GetUserByEmail_def)
  from repo_GetByEmail_facts [OF r] ok have "cache_faults w2 = []" by (simp add: same_cache_def)
  then show "cached_under_all_keys u (cacheUser u w2)" by (rule cacheUser_warms)
next
  assume "key = CacheKeyUserUsername username" and r: "repo_GetByUsername username w1 = (Inr u, w2)"
  with miss show "GetUserByUsername username w = (Inr u, cacheUser u w2)"
    by (simp add: GetUserByUsername_def)
  from repo_GetByUsername_facts [OF r] ok have "cache_faults w2 = []"
    by (simp add: same_cache_def)
  then show "cached_under_all_keys u (cacheUser u w2)" by (rule cacheUser_warms)
qed

text \<open>
  The three reads of a user that is in the store, from an empty cache.
\<close>

theorem read_miss_witness:
  "GetUserByID ''65a1b2c3d4e5f60718293a4b'' (quiet_world [alice])
     = (Inr alice, cacheUser alice (quiet_world [alice]))
   \<and> GetUserByEmail ''alice@x.io'' (quiet_world [alice])
     = (Inr alice, cacheUser alice (quiet_world [alice]))
   \<and> GetUserByUsername ''alice'' (quiet_world [alice])
     = (Inr alice, cacheUser alice (quiet_world [alice]))
   \<and> cached_under_all_keys alice (cacheUser alice (quiet_world [alice]))"
  using read_miss_falls_through_and_fills_all_keys
          [of "CacheKeyUser ''65a1b2c3d4e5f60718293a4b''" "quiet_world [alice]" _ "quiet_world [alice]"
              "''65a1b2c3d4e5f60718293a4b''" alice "quiet_world [alice]"]
        read_miss_falls_through_and_fills_all_keys
          [of "CacheKeyUserByEmail ''alice@x.io''" "quiet_world [alice]" _ "quiet_world [alice]"
              _ alice "quiet_world [alice]" "''alice@x.io''"]
        read_miss_falls_through_and_fills_all_keys
          [of "CacheKeyUserUsername ''alice''" "quiet_world [alice]" _ "quiet_world [alice]"
              _ alice "quiet_world [alice]" _ "''alice''"]
  by (simp add: reads_of_quiet_world)

section \<open>Verifying a user twice\<close>

lemma cache_keys_distinct [simp]:
  "CacheKeyUser a \<noteq> CacheKeyUserByEmail b" "CacheKeyUserByEmail b \<noteq> CacheKeyUser a"
  "CacheKeyUser a \<noteq> CacheKeyUserUsername b" "CacheKeyUserUsername b \<noteq> CacheKeyUser a"
  "CacheKeyUser a \<noteq> CacheKeyUserExists f b" "CacheKeyUserExists f b \<noteq> CacheKeyUser a"
  "CacheKeyUser a \<noteq> CacheKeyUserStats" "CacheKeyUserStats \<noteq> CacheKeyUser a"
  "CacheKeyUserByEmail a \<noteq> CacheKeyUserUsername b" "CacheKeyUserUsername b \<noteq> CacheKeyUserByEmail a"
  "CacheKeyUserByEmail a \<noteq> CacheKeyUserExists f b" "CacheKeyUserExists f b \<noteq> CacheKeyUserByEmail a"
  "CacheKeyUserByEmail a \<noteq> CacheKeyUserStats" "CacheKeyUserStats \<noteq> CacheKeyUserByEmail a"
  "CacheKeyUserUsername a \<noteq> CacheKeyUserExists f b" "CacheKeyUserExists f b \<noteq> CacheKeyUserUsername a"
  "CacheKeyUserUsername a \<noteq> CacheKeyUserStats" "CacheKeyUserStats \<noteq> CacheKeyUserUsername a"
  by (simp_all add: CacheKeyUser_def CacheKeyUserByEmail_def CacheKeyUserUsername_def
      CacheKeyUserExists_def CacheKeyUserStats_def)

lemma cache_keys_inject [simp]:
  "CacheKeyUser a = CacheKeyUser b \<longleftrightarrow> a = b"
  "CacheKeyUserByEmail a = CacheKeyUserByEmail b \<longleftrightarrow> a = b"
  "CacheKeyUserUsername a = CacheKeyUserUsername b \<longleftrightarrow> a = b"
  by (simp_all add: CacheKeyUser_def CacheKeyUserByEmail_def CacheKeyUserUsername_def)






lemma unique_identities_cache [simp]:
  "unique_identities (w\<lparr>cache := c\<rparr>) = unique_identities w"
  by (simp add: unique_identities_def)





section \<open>Invalidation on update\<close>

lemma grows_refl [simp]: "grows w w"
  by (simp add: grows_def)

lemma grows_trans: "grows w w1 \<Longrightarrow> grows w1 w2 \<Longrightarrow> grows w w2"
  by (simp add: grows_def)

lemma same_cache_grows: "same_cache w w' \<Longrightarrow> grows w w'"
  by (simp add: same_cache_def grows_def)

lemma cache_Get_grows: "cache_Get k w = (r, w') \<Longrightarrow> grows w w'"
  by (auto simp: cache_Get_def grows_def next_fault_def Let_def
      split: prod.splits if_splits option.splits list.splits)

lemma cache_Set_grows: "grows w (snd (cache_Set k v w))"
  by (auto simp: cache_Set_def grows_def next_fault_def Let_def
      split: prod.splits if_splits list.splits)

lemma cacheUser_grows: "grows w (cacheUser u w)"
proof -
  have "grows w (fold (\<lambda>key w'. snd (cache_Set key v w')) ks w)" for v ks
  proof (induction ks arbitrary: w)
    case Nil
    show ?case by simp
  next
    case (Cons k ks)
    from cache_Set_grows [of w k v] Cons [of "snd (cache_Set k v w)"] show ?case
      by (auto intro: grows_trans)
  qed
  then show ?thesis by (simp add: cacheUser_def)
qed

lemma getUserFromCache_grows: "getUserFromCache k w = (r, w') \<Longrightarrow> grows w w'"
  by (auto simp: getUserFromCache_def split: prod.splits sum.splits dest!: cache_Get_grows)

lemma GetUserByID_grows:
  assumes "GetUserByID i w = (r, w')"
  shows "grows w w'"
proof -
  obtain c w1 where g: "getUserFromCache (CacheKeyUser i) w = (c, w1)"
    by (cases "getUserFromCache (CacheKeyUser i) w")
  note g1 = getUserFromCache_grows [OF g]
  show ?thesis
  proof (cases c)
    case (Inr u)
    with assms g g1 show ?thesis by (simp add: GetUserByID_def)
  next
    case (Inl ce)
    obtain r2 w2 where rg: "repo_GetByID i w1 = (r2, w2)" by (cases "repo_GetByID i w1")
    from repo_GetByID_facts [OF rg] have g2: "grows w1 w2" by (simp add: same_cache_grows)
    show ?thesis
    proof (cases r2)
      case (Inl e)
      with assms g \<open>c = Inl ce\<close> rg have "w' = w2" by (simp add: GetUserByID_def)
      with g1 g2 show ?thesis by (auto intro: grows_trans)
    next
      case (Inr u)
      with assms g \<open>c = Inl ce\<close> rg have "w' = cacheUser u w2" by (simp add: GetUserByID_def)
      with g1 g2 cacheUser_grows [of w2 u] show ?thesis by (auto intro: grows_trans)
    qed
  qed
qed

lemma checkUserExists_grows:
  assumes "checkUserExists f v w = (r, w')"
  shows "grows w w'"
proof -
  obtain c w1 where g: "cache_Get (CacheKeyUserExists f v) w = (c, w1)"
    by (cases "cache_Get (CacheKeyUserExists f v) w")
  note g1 = cache_Get_grows [OF g]
  show ?thesis
  proof (cases c)
    case (Inr j)
    with assms g g1 show ?thesis by (simp add: checkUserExists_def)
  next
    case (Inl ce)
    show ?thesis
    proof (cases "f = ''email'' \<or> f = ''username''")
      case False
      with assms g Inl have "w' = w1" by (simp add: checkUserExists_def)
      with g1 show ?thesis by simp
    next
      case True
      obtain r2 w2 where rg:
        "(if f = ''email'' then repo_ExistsByEmail v w1 else repo_ExistsByUsername v w1) = (r2, w2)"
        by (cases "if f = ''email'' then repo_ExistsByEmail v w1 else repo_ExistsByUsername v w1")
      then have g2: "grows w1 w2"
        by (auto split: if_splits
            dest!: repo_ExistsByEmail_facts repo_ExistsByUsername_facts same_cache_grows)
      show ?thesis
      proof (cases r2)
        case (Inl e)
        with assms g \<open>c = Inl ce\<close> True rg have "w' = w2"
          by (simp add: checkUserExists_def)
        with g1 g2 show ?thesis by (auto intro: grows_trans)
      next
        case (Inr b)
        with assms g \<open>c = Inl ce\<close> True rg
        have "w' = snd (cache_Set (CacheKeyUserExists f v) (Raw (if b then ''true'' else ''false'')) w2)"
          by (simp add: checkUserExists_def)
        with g1 g2 cache_Set_grows [of w2] show ?thesis by (auto intro: grows_trans)
      qed
    qed
  qed
qed

lemma check_changed_grows: "check_changed f us c w = (eo, w') \<Longrightarrow> grows w w'"
  by (auto simp: check_changed_def ensure_absent_def
      split: option.splits if_splits prod.splits sum.splits dest!: checkUserExists_grows)

end
